theory Spec2Isabelle
  imports Main "HOL-Library.Sublist"
begin

section \<open>JavaScript strings\<close>

type_synonym path = string

text \<open>\<^verbatim>\<open>s.includes(t)\<close>: \<open>t\<close> occurs in \<open>s\<close> as a contiguous substring.\<close>

fun js_includes :: "string \<Rightarrow> string \<Rightarrow> bool" where
  "js_includes [] t = (t = [])"
| "js_includes (c # cs) t = (prefix t (c # cs) \<or> js_includes cs t)"

text \<open>
  \<^verbatim>\<open>s.replace(pat, rep)\<close> with a string pattern: only the first occurrence of \<open>pat\<close> is
  replaced. The replacement strings of the build script contain no \<^verbatim>\<open>$\<close>, so the
  replacement is literal.
\<close>

fun js_replace :: "string \<Rightarrow> string \<Rightarrow> string \<Rightarrow> string" where
  "js_replace [] pat rep = (if pat = [] then rep else [])"
| "js_replace (c # cs) pat rep =
     (if prefix pat (c # cs) then rep @ drop (length pat) (c # cs)
      else c # js_replace cs pat rep)"

text \<open>\<^verbatim>\<open>f.replace(/\.js$/, '')\<close>: a trailing \<^verbatim>\<open>.js\<close> is removed.\<close>

definition replace_js_ext :: "string \<Rightarrow> string" where
  "replace_js_ext f = (if suffix ''.js'' f then take (length f - 3) f else f)"

section \<open>Node's path module (POSIX variant)\<close>

text \<open>
  \<^verbatim>\<open>path.basename(p)\<close>: trailing slashes are skipped, then the characters after the last
  remaining slash are returned.
\<close>

definition basename :: "path \<Rightarrow> string" where
  "basename p =
     rev (takeWhile (\<lambda>c. c \<noteq> CHR ''/'') (dropWhile (\<lambda>c. c = CHR ''/'') (rev p)))"

text \<open>
  \<^verbatim>\<open>path.dirname(p)\<close>: the scan runs from the end down to index 1, skips trailing slashes
  and the last segment, and cuts at the slash before it.
\<close>

definition dirname :: "path \<Rightarrow> path" where
  "dirname p =
     (if p = [] then ''.''
      else
        let hasRoot = (hd p = CHR ''/'');
            r = dropWhile (\<lambda>c. c \<noteq> CHR ''/'') (dropWhile (\<lambda>c. c = CHR ''/'') (rev (tl p)))
        in if r = [] then (if hasRoot then ''/'' else ''.'')
           else if hasRoot \<and> length r = 1 then ''//''
           else take (length r) p)"

fun split_slash :: "string \<Rightarrow> string list" where
  "split_slash [] = [[]]"
| "split_slash (c # cs) =
     (if c = CHR ''/'' then [] # split_slash cs
      else (case split_slash cs of [] \<Rightarrow> [[c]] | s # ss \<Rightarrow> (c # s) # ss))"

fun join_slash :: "string list \<Rightarrow> string" where
  "join_slash [] = []"
| "join_slash [s] = s"
| "join_slash (s # t # ss) = s @ ''/'' @ join_slash (t # ss)"

text \<open>
  \<^verbatim>\<open>normalizeString\<close>: empty segments and \<^verbatim>\<open>.\<close> are dropped, \<^verbatim>\<open>..\<close> removes the segment
  before it; above the root it is kept only when \<open>allowAboveRoot\<close>.
\<close>

definition normalize_step :: "bool \<Rightarrow> string list \<Rightarrow> string \<Rightarrow> string list" where
  "normalize_step allowAboveRoot res seg =
     (if seg = [] \<or> seg = ''.'' then res
      else if seg = ''..'' then
        (if res \<noteq> [] \<and> last res \<noteq> ''..'' then butlast res
         else if allowAboveRoot then res @ [''..''] else res)
      else res @ [seg])"

definition normalizeString :: "string \<Rightarrow> bool \<Rightarrow> string" where
  "normalizeString p allowAboveRoot =
     join_slash (foldl (normalize_step allowAboveRoot) [] (split_slash p))"

text \<open>
  \<^verbatim>\<open>path.resolve(process.cwd(), filePath)\<close>, with \<open>cwd\<close> the value of
  \<^verbatim>\<open>process.cwd()\<close>. The arguments are taken from right to left until an absolute one
  is met; empty ones are skipped; after the arguments the working directory is used.
\<close>

definition resolve_step :: "string \<times> bool \<Rightarrow> string \<Rightarrow> string \<times> bool" where
  "resolve_step st part =
     (if snd st \<or> part = [] then st
      else (part @ ''/'' @ fst st, hd part = CHR ''/''))"

definition path_resolve :: "path \<Rightarrow> path \<Rightarrow> path" where
  "path_resolve cwd filePath =
     (let st = foldl resolve_step ([], False) [filePath, cwd, cwd];
          resolvedAbsolute = snd st;
          n = normalizeString (fst st) (\<not> resolvedAbsolute)
      in if resolvedAbsolute then CHR ''/'' # n
         else if n \<noteq> [] then n else ''.'')"

text \<open>\<^verbatim>\<open>path.isAbsolute(p)\<close>\<close>

definition isAbsolute :: "path \<Rightarrow> bool" where
  "isAbsolute p = (p \<noteq> [] \<and> hd p = CHR ''/'')"

section \<open>Values, errors and the bundling session\<close>

datatype json =
    JNull
  | JBool bool
  | JNum int
  | JStr string
  | JArr "json list"
  | JObj "(string \<times> json) list"

datatype error =
    ModuleNotFound string
  | InvalidArgType
  | ENOENT path
  | IOError string
  | SyntaxError
  | MinifyError string

text \<open>
  The bundler is a library used as a black box. A bundling session is the list of the
  calls made on the bundler object, in call order, starting with its construction.
  Every method of the session returns the same, updated object.
\<close>

datatype bundle_op =
    Browserify "path option" bool
  | Plugin string json
  | Transform string json
  | Ignore path
  | Require path "string option"

type_synonym session = "bundle_op list"

definition browserify :: "path option \<Rightarrow> bool \<Rightarrow> session" where
  "browserify entryPath debug = [Browserify entryPath debug]"

definition plugin :: "session \<Rightarrow> string \<Rightarrow> json \<Rightarrow> session" where
  "plugin b name opts = b @ [Plugin name opts]"

definition transform :: "session \<Rightarrow> string \<Rightarrow> json \<Rightarrow> session" where
  "transform b name opts = b @ [Transform name opts]"

definition ignore :: "session \<Rightarrow> path \<Rightarrow> session" where
  "ignore b file = b @ [Ignore file]"

text \<open>\<^verbatim>\<open>bundle.ignore(array)\<close> ignores each file of the array in turn.\<close>

definition ignore_all :: "session \<Rightarrow> path list \<Rightarrow> session" where
  "ignore_all b fs = foldl ignore b fs"

definition require :: "session \<Rightarrow> path \<Rightarrow> string option \<Rightarrow> session" where
  "require b file expose = b @ [Require file expose]"

fun is_ignore :: "bundle_op \<Rightarrow> bool" where
  "is_ignore (Ignore f) = True"
| "is_ignore _ = False"

fun is_require :: "bundle_op \<Rightarrow> bool" where
  "is_require (Require f e) = True"
| "is_require _ = False"

text \<open>The excluded modules and the registered modules of a session, in call order.\<close>

fun ignored :: "session \<Rightarrow> path list" where
  "ignored [] = []"
| "ignored (Ignore f # ops) = f # ignored ops"
| "ignored (_ # ops) = ignored ops"

fun required :: "session \<Rightarrow> (path \<times> string option) list" where
  "required [] = []"
| "required (Require f e # ops) = (f, e) # required ops"
| "required (_ # ops) = required ops"

text \<open>
  What the bundler makes of the calls. It keeps the excluded names in a list, which only
  \<^verbatim>\<open>ignore\<close> changes, and the registrations in another. It consults the list of
  excluded names whenever a module is resolved, also for a module registered with
  \<^verbatim>\<open>require\<close>: an excluded module goes into the bundle as an empty stub, whatever was
  called before or after its exclusion. A module is identified by the name or path given
  in the call.
\<close>

record bundler_state =
  excluded :: "path list"
  registered :: "(path \<times> string option) list"

fun apply_op :: "bundler_state \<Rightarrow> bundle_op \<Rightarrow> bundler_state" where
  "apply_op b (Ignore f) = b\<lparr>excluded := excluded b @ [f]\<rparr>"
| "apply_op b (Require f e) = b\<lparr>registered := registered b @ [(f, e)]\<rparr>"
| "apply_op b _ = b"

definition bundler_of :: "session \<Rightarrow> bundler_state" where
  "bundler_of ops = foldl apply_op \<lparr>excluded = [], registered = []\<rparr> ops"

datatype module_body = EmptyStub | ModuleSource

definition body_of :: "bundler_state \<Rightarrow> path \<Rightarrow> module_body" where
  "body_of b m = (if m \<in> set (excluded b) then EmptyStub else ModuleSource)"

section \<open>The minifier's interface\<close>

record minify_options =
  output_comments :: string
  output_max_line_len :: nat
  keep_classnames :: bool
  keep_fnames :: bool
  mangle_reserved :: "string list"
  sourceMap_content :: json
  sourceMap_url :: string

record minify_result =
  result_error :: "error option"
  result_code :: string
  result_map :: string

section \<open>The environment of a build\<close>

text \<open>
  Everything the script takes from outside itself: the registry lists of the runner, the
  locale modules found when the script is loaded, the audit paths of the publisher-ads
  plugin, the package descriptor (\<open>None\<close> when loading it fails), module resolution
  (\<open>None\<close> when \<^verbatim>\<open>require.resolve\<close> throws), the working directory, and the behaviour
  of the libraries used as black boxes: directory creation, the piped streams, the JSON
  parser and the minifier.
\<close>

datatype emitter = BundleStream | ExorcistStream | WriteStream

datatype stream_event = Finish | ErrorEvent error

datatype stream_action =
    WriterOpens
  | ExorcistWritesMap string
  | WriterAppends string
  | Emit emitter stream_event

record env =
  COMMIT_HASH :: string
  getAuditList :: "string list"
  getGathererList :: "string list"
  locales :: "path list"
  pubAdsAudits :: "path list"
  packageJson :: "json option"
  require_resolve :: "string \<Rightarrow> path option"
  cwd :: path
  mkdir_error :: "path \<Rightarrow> error option"
  stream_script :: "stream_action list"
  JSON_parse :: "string \<Rightarrow> json option"
  terser_minify :: "string \<Rightarrow> minify_options \<Rightarrow> minify_result"

definition audits :: "env \<Rightarrow> path list" where
  "audits env = map (\<lambda>f. ''./lighthouse-core/audits/'' @ replace_js_ext f) (getAuditList env)"

definition gatherers :: "env \<Rightarrow> path list" where
  "gatherers env =
     map (\<lambda>f. ''./lighthouse-core/gather/gatherers/'' @ replace_js_ext f) (getGathererList env)"

definition isDevtools :: "path \<Rightarrow> bool" where
  "isDevtools file = js_includes (basename file) ''devtools''"

definition isLightrider :: "path \<Rightarrow> bool" where
  "isLightrider file = js_includes (basename file) ''lightrider''"

section \<open>The world: files and the record of effects\<close>

datatype event =
    Bundle session
  | Mkdir path
  | CreateWriteStream path
  | Exorcist path
  | OpenFile path
  | WriteChunk path string
  | ReadFile path
  | TerserMinify string minify_options
  | WriteFile path string
  | UncaughtException error
  | UnhandledRejection error

record world =
  files :: "path \<rightharpoonup> string"
  trace :: "event list"

definition log_event :: "event \<Rightarrow> world \<Rightarrow> world" where
  "log_event e w = w\<lparr>trace := trace w @ [e]\<rparr>"

text \<open>The events a run has added to the record.\<close>

definition new_events :: "world \<Rightarrow> world \<Rightarrow> event list" where
  "new_events w w' = drop (length (trace w)) (trace w')"

datatype promise = Pending | Fulfilled | Rejected error

definition resolve :: "promise \<Rightarrow> promise" where
  "resolve p = (if p = Pending then Fulfilled else p)"

definition reject :: "error \<Rightarrow> promise \<Rightarrow> promise" where
  "reject e p = (if p = Pending then Rejected e else p)"

section \<open>browserifyFile\<close>

definition corePath :: string where
  "corePath = ''./lighthouse-core/''"

definition driverPath :: string where
  "driverPath = corePath @ ''gather/''"

text \<open>
  The synchronous part of \<^verbatim>\<open>browserifyFile\<close>: the session is created and configured.
  A failing \<^verbatim>\<open>require\<close> or \<^verbatim>\<open>require.resolve\<close> throws where the source evaluates it, and
  \<^verbatim>\<open>path.basename\<close> throws on an undefined entry path. The banner's \<^verbatim>\<open>pkg\<close> option,
  \<^verbatim>\<open>Object.assign({COMMIT_HASH}, require('../package.json'))\<close>, is kept as the pair of
  the two objects that are merged.
\<close>

definition configure :: "env \<Rightarrow> path option \<Rightarrow> error + session" where
  "configure env entryPath =
     (let bundle = browserify entryPath True in
      case packageJson env of
        None \<Rightarrow> Inl (ModuleNotFound ''../package.json'')
      | Some pkg \<Rightarrow>
      (case require_resolve env ''./banner.txt'' of
        None \<Rightarrow> Inl (ModuleNotFound ''./banner.txt'')
      | Some banner \<Rightarrow>
      (let bundle = plugin bundle ''browserify-banner''
             (JObj [(''pkg'', JArr [JObj [(''COMMIT_HASH'', JStr (COMMIT_HASH env))], pkg]),
                    (''file'', JStr banner)]);
           bundle = transform bundle ''@wardpeet/brfs''
             (JObj [(''global'', JBool True), (''parserOpts'', JObj [(''ecmaVersion'', JNum 10)])]);
           bundle = transform bundle ''package-json-versionify'' JNull;
           bundle = ignore bundle ''source-map'';
           bundle = ignore bundle ''debug/node'';
           bundle = ignore bundle ''intl'';
           bundle = ignore bundle ''intl-pluralrules'';
           bundle = ignore bundle ''raven'';
           bundle = ignore bundle ''rimraf'';
           bundle = ignore bundle ''pako/lib/zlib/inflate.js''
       in
      case require_resolve env ''../lighthouse-core/gather/connections/cri.js'' of
        None \<Rightarrow> Inl (ModuleNotFound ''../lighthouse-core/gather/connections/cri.js'')
      | Some cri \<Rightarrow>
      (let bundle = ignore bundle cri in
      case entryPath of
        None \<Rightarrow> Inl InvalidArgType
      | Some entry \<Rightarrow>
      (case (if isDevtools entry \<or> isLightrider entry
             then (case require_resolve env ''../lighthouse-core/report/html/html-report-assets.js'' of
                     None \<Rightarrow> Inl (ModuleNotFound ''../lighthouse-core/report/html/html-report-assets.js'')
                   | Some assets \<Rightarrow> Inr (ignore bundle assets))
             else Inr bundle) of
        Inl e \<Rightarrow> Inl e
      | Inr bundle \<Rightarrow>
      (let bundle = (if isDevtools entry then ignore_all bundle (locales env) else bundle);
           bundle = foldl (\<lambda>b audit. require b audit (Some (js_replace audit corePath ''../'')))
                      bundle (audits env);
           bundle = foldl (\<lambda>b gatherer.
                        require b gatherer (Some (js_replace gatherer driverPath ''../gather/'')))
                      bundle (gatherers env);
           bundle = (if isDevtools entry
                     then foldl (\<lambda>b pubAdAudit. require b pubAdAudit None)
                            (require bundle ''lighthouse-plugin-publisher-ads'' None)
                            (pubAdsAudits env)
                     else bundle)
       in
      case require_resolve env ''../lighthouse-core/lib/url-shim.js'' of
        None \<Rightarrow> Inl (ModuleNotFound ''../lighthouse-core/lib/url-shim.js'')
      | Some pathToURLShim \<Rightarrow> Inr (require bundle pathToURLShim (Some ''url''))))))))"

text \<open>
  \<^verbatim>\<open>fs.createWriteStream(p)\<close> returns the stream at once and opens \<open>p\<close> later: the
  file is created, or truncated when it exists, only when the open succeeds
  (\<open>WriterOpens\<close> below); a failed open is an \<^verbatim>\<open>'error'\<close> event of the stream.
\<close>

definition createWriteStream :: "path \<Rightarrow> world \<Rightarrow> world" where
  "createWriteStream p w = log_event (CreateWriteStream p) w"

text \<open>
  One action of the piped streams. The listeners are the two that the source registers:
  \<^verbatim>\<open>writeStream.on('finish', resolve)\<close> and \<^verbatim>\<open>writeStream.on('error', reject)\<close>. An
  \<^verbatim>\<open>'error'\<close> event on an emitter without a listener for it is thrown by Node as an
  uncaught exception; \<^verbatim>\<open>pipe\<close> does not forward errors from one stream to the next.
\<close>

fun stream_step :: "path \<Rightarrow> stream_action \<Rightarrow> promise \<times> world \<Rightarrow> promise \<times> world" where
  "stream_step dist WriterOpens (p, w) =
     (p, log_event (OpenFile dist) (w\<lparr>files := (files w)(dist \<mapsto> [])\<rparr>))"
| "stream_step dist (ExorcistWritesMap m) (p, w) =
     (p, log_event (WriteFile (dist @ ''.map'') m) (w\<lparr>files := (files w)(dist @ ''.map'' \<mapsto> m)\<rparr>))"
| "stream_step dist (WriterAppends chunk) (p, w) =
     (p, log_event (WriteChunk dist chunk)
           (w\<lparr>files := (files w)(dist \<mapsto> (case files w dist of None \<Rightarrow> [] | Some s \<Rightarrow> s) @ chunk)\<rparr>))"
| "stream_step dist (Emit WriteStream Finish) (p, w) = (resolve p, w)"
| "stream_step dist (Emit WriteStream (ErrorEvent e)) (p, w) = (reject e p, w)"
| "stream_step dist (Emit em Finish) (p, w) = (p, w)"
| "stream_step dist (Emit em (ErrorEvent e)) (p, w) = (p, log_event (UncaughtException e) w)"

text \<open>The process ends at an uncaught exception: the remaining actions never happen.\<close>

fun crashes :: "stream_action \<Rightarrow> bool" where
  "crashes (Emit WriteStream (ErrorEvent e)) = False"
| "crashes (Emit em (ErrorEvent e)) = True"
| "crashes _ = False"

fun run_streams :: "path \<Rightarrow> stream_action list \<Rightarrow> promise \<times> world \<Rightarrow> promise \<times> world" where
  "run_streams dist [] s = s"
| "run_streams dist (a # as) s =
     (if crashes a then stream_step dist a s else run_streams dist as (stream_step dist a s))"

definition browserifyFile :: "env \<Rightarrow> path option \<Rightarrow> path option \<Rightarrow> world \<Rightarrow> promise \<times> world" where
  "browserifyFile env entryPath distPath w =
     (case configure env entryPath of
        Inl e \<Rightarrow> (Rejected e, w)
      | Inr bundle \<Rightarrow>
        (let w1 = log_event (Bundle bundle) w in
         case distPath of
           None \<Rightarrow> (Rejected InvalidArgType, w1)
         | Some dist \<Rightarrow>
           (let w2 = log_event (Mkdir (dirname dist)) w1 in
            case mkdir_error env (dirname dist) of
              Some e \<Rightarrow> (Rejected e, w2)
            | None \<Rightarrow>
              (let w3 = createWriteStream dist w2;
                   w4 = log_event (Exorcist (dist @ ''.map'')) w3
               in run_streams dist (stream_script env) (Pending, w4)))))"

section \<open>minifyScript\<close>

definition readFileSync :: "path \<Rightarrow> world \<Rightarrow> (error + string) \<times> world" where
  "readFileSync p w =
     ((case files w p of None \<Rightarrow> Inl (ENOENT p) | Some s \<Rightarrow> Inr s), log_event (ReadFile p) w)"

definition writeFileSync :: "path \<Rightarrow> string \<Rightarrow> world \<Rightarrow> world" where
  "writeFileSync p s w = log_event (WriteFile p s) (w\<lparr>files := (files w)(p \<mapsto> s)\<rparr>)"

text \<open>
  The options object that \<^verbatim>\<open>minifyScript\<close> passes to \<^verbatim>\<open>terser.minify\<close>; \<open>content\<close> is
  the parsed map and \<open>filePath\<close> the file being minified.
\<close>

definition terser_options :: "json \<Rightarrow> path \<Rightarrow> minify_options" where
  "terser_options content filePath =
     \<lparr>output_comments = ''^!'',
      output_max_line_len = 1000,
      keep_classnames = True,
      keep_fnames = True,
      mangle_reserved = [''ChromeProtocol'', ''mkdirp'', ''rimraf'', ''fs''],
      sourceMap_content = content,
      sourceMap_url = basename (filePath @ ''.map'')\<rparr>"

text \<open>
  The arguments of \<^verbatim>\<open>terser.minify\<close> are evaluated from left to right: the bundle is
  read, then the map is read and parsed, then the minifier is called.
\<close>

definition minifyScript :: "env \<Rightarrow> path \<Rightarrow> world \<Rightarrow> (error + unit) \<times> world" where
  "minifyScript env filePath w =
     (case readFileSync filePath w of
        (Inl e, w1) \<Rightarrow> (Inl e, w1)
      | (Inr src, w1) \<Rightarrow>
        (case readFileSync (filePath @ ''.map'') w1 of
           (Inl e, w2) \<Rightarrow> (Inl e, w2)
         | (Inr mapText, w2) \<Rightarrow>
           (case JSON_parse env mapText of
              None \<Rightarrow> (Inl SyntaxError, w2)
            | Some content \<Rightarrow>
              (let opts = terser_options content filePath;
                   result = terser_minify env src opts;
                   w3 = log_event (TerserMinify src opts) w2
               in case result_error result of
                    Some e \<Rightarrow> (Inl e, w3)
                  | None \<Rightarrow>
                    (Inr (), writeFileSync (filePath @ ''.map'') (result_map result)
                               (writeFileSync filePath (result_code result) w3))))))"

section \<open>build and cli\<close>

definition build :: "env \<Rightarrow> path option \<Rightarrow> path option \<Rightarrow> world \<Rightarrow> promise \<times> world" where
  "build env entryPath distPath w =
     (case browserifyFile env entryPath distPath w of
        (Pending, w1) \<Rightarrow> (Pending, w1)
      | (Rejected e, w1) \<Rightarrow> (Rejected e, w1)
      | (Fulfilled, w1) \<Rightarrow>
        (case distPath of
           None \<Rightarrow> (Rejected InvalidArgType, w1)
         | Some dist \<Rightarrow>
           (case minifyScript env dist w1 of
              (Inl e, w2) \<Rightarrow> (Rejected e, w2)
            | (Inr u, w2) \<Rightarrow> (Fulfilled, w2))))"

text \<open>\<^verbatim>\<open>xs[i]\<close> of a destructuring pattern: undefined past the end.\<close>

definition element :: "'a list \<Rightarrow> nat \<Rightarrow> 'a option" where
  "element xs i = (if i < length xs then Some (xs ! i) else None)"

text \<open>
  \<^verbatim>\<open>cli\<close> calls \<^verbatim>\<open>build\<close> and drops the promise it returns: its own promise is fulfilled
  whatever the build does, and a rejection of the build has no handler.
\<close>

definition cli :: "env \<Rightarrow> string list \<Rightarrow> world \<Rightarrow> promise \<times> world" where
  "cli env argv w =
     (let args = map (\<lambda>filePath. path_resolve (cwd env) filePath) (drop 2 argv);
          entryPath = element args 0;
          distPath = element args 1
      in case build env entryPath distPath w of
           (Rejected e, w1) \<Rightarrow> (Fulfilled, log_event (UnhandledRejection e) w1)
         | (p, w1) \<Rightarrow> (Fulfilled, w1))"

section \<open>A small installation, used to run the definitions\<close>

definition example_env :: env where
  "example_env =
     \<lparr>COMMIT_HASH = ''0123abc'',
      getAuditList = [''sized-images.js'', ''metrics/interactive.js''],
      getGathererList = [''image-elements.js''],
      locales = [''/lh/lighthouse-core/lib/i18n/locales/de.json'',
                 ''/lh/lighthouse-core/lib/i18n/locales/en-US.json''],
      pubAdsAudits = [''lighthouse-plugin-publisher-ads/audits/ad-blocking-tasks''],
      packageJson = Some (JObj [(''name'', JStr ''lighthouse''), (''version'', JStr ''6.4.1'')]),
      require_resolve = map_of
        [(''./banner.txt'', ''/lh/build/banner.txt''),
         (''../lighthouse-core/gather/connections/cri.js'',
          ''/lh/lighthouse-core/gather/connections/cri.js''),
         (''../lighthouse-core/report/html/html-report-assets.js'',
          ''/lh/lighthouse-core/report/html/html-report-assets.js''),
         (''../lighthouse-core/lib/url-shim.js'', ''/lh/lighthouse-core/lib/url-shim.js'')],
      cwd = ''/lh'',
      mkdir_error = (\<lambda>p. None),
      stream_script =
        [WriterOpens, ExorcistWritesMap ''{}'', WriterAppends ''var answer = 42;'',
         Emit WriteStream Finish],
      JSON_parse = (\<lambda>s. if s = ''{}'' then Some (JObj []) else None),
      terser_minify = (\<lambda>src opts.
        \<lparr>result_error = None, result_code = ''var answer=42;'', result_map = ''{}''\<rparr>)\<rparr>"

definition example_world :: world where
  "example_world = \<lparr>files = Map.empty, trace = []\<rparr>"

definition example_head :: session where
  "example_head =
     [Plugin ''browserify-banner''
        (JObj [(''pkg'', JArr [JObj [(''COMMIT_HASH'', JStr ''0123abc'')],
                               JObj [(''name'', JStr ''lighthouse''), (''version'', JStr ''6.4.1'')]]),
               (''file'', JStr ''/lh/build/banner.txt'')]),
      Transform ''@wardpeet/brfs''
        (JObj [(''global'', JBool True), (''parserOpts'', JObj [(''ecmaVersion'', JNum 10)])]),
      Transform ''package-json-versionify'' JNull,
      Ignore ''source-map'',
      Ignore ''debug/node'',
      Ignore ''intl'',
      Ignore ''intl-pluralrules'',
      Ignore ''raven'',
      Ignore ''rimraf'',
      Ignore ''pako/lib/zlib/inflate.js'',
      Ignore ''/lh/lighthouse-core/gather/connections/cri.js'']"

definition example_registry :: session where
  "example_registry =
     [Require ''./lighthouse-core/audits/sized-images'' (Some ''../audits/sized-images''),
      Require ''./lighthouse-core/audits/metrics/interactive''
        (Some ''../audits/metrics/interactive''),
      Require ''./lighthouse-core/gather/gatherers/image-elements''
        (Some ''../gather/gatherers/image-elements'')]"

text \<open>The sessions configured for a devtools entry and for a plain entry.\<close>

definition example_devtools_session :: session where
  "example_devtools_session =
     Browserify (Some ''/lh/clients/devtools-entry.js'') True # example_head
     @ [Ignore ''/lh/lighthouse-core/report/html/html-report-assets.js'',
        Ignore ''/lh/lighthouse-core/lib/i18n/locales/de.json'',
        Ignore ''/lh/lighthouse-core/lib/i18n/locales/en-US.json'']
     @ example_registry
     @ [Require ''lighthouse-plugin-publisher-ads'' None,
        Require ''lighthouse-plugin-publisher-ads/audits/ad-blocking-tasks'' None,
        Require ''/lh/lighthouse-core/lib/url-shim.js'' (Some ''url'')]"

definition example_plain_session :: session where
  "example_plain_session =
     Browserify (Some ''/lh/lighthouse-cli/index.js'') True # example_head
     @ example_registry
     @ [Require ''/lh/lighthouse-core/lib/url-shim.js'' (Some ''url'')]"

text \<open>An installation whose plugin lists a module that every build excludes.\<close>

definition overlap_env :: env where
  "overlap_env = example_env\<lparr>pubAdsAudits := [''rimraf'']\<rparr>"

definition overlap_session :: session where
  "overlap_session =
     Browserify (Some ''/lh/clients/devtools-entry.js'') True # example_head
     @ [Ignore ''/lh/lighthouse-core/report/html/html-report-assets.js'',
        Ignore ''/lh/lighthouse-core/lib/i18n/locales/de.json'',
        Ignore ''/lh/lighthouse-core/lib/i18n/locales/en-US.json'']
     @ example_registry
     @ [Require ''lighthouse-plugin-publisher-ads'' None,
        Require ''rimraf'' None,
        Require ''/lh/lighthouse-core/lib/url-shim.js'' (Some ''url'')]"

text \<open>An installation without a loadable package descriptor.\<close>

definition no_package_env :: env where
  "no_package_env = example_env\<lparr>packageJson := None\<rparr>"

text \<open>A world after bundling, and one where the map of the bundle is missing.\<close>

definition bundled_world :: world where
  "bundled_world =
     \<lparr>files = [''/lh/dist/out.js'' \<mapsto> ''var answer = 42;'', ''/lh/dist/out.js.map'' \<mapsto> ''{}''],
      trace = []\<rparr>"

definition mapless_world :: world where
  "mapless_world = \<lparr>files = [''/lh/dist/out.js'' \<mapsto> ''var answer = 42;''], trace = []\<rparr>"

text \<open>An installation whose minifier reports an error.\<close>

definition failing_minifier_env :: env where
  "failing_minifier_env =
     example_env\<lparr>terser_minify := (\<lambda>src opts.
       \<lparr>result_error = Some (MinifyError ''Unexpected token''), result_code = [],
        result_map = []\<rparr>)\<rparr>"

text \<open>An installation where the bundler stream fails.\<close>

definition bundler_error_env :: env where
  "bundler_error_env =
     example_env\<lparr>stream_script :=
       [Emit BundleStream (ErrorEvent (IOError ''Unexpected token''))]\<rparr>"

section \<open>The three parts of a configured session\<close>

text \<open>
  The calls that \<^verbatim>\<open>browserifyFile\<close> makes when every module it needs resolves, written
  as lists: the calls before the first exclusion, the excluded modules and the
  registered modules. \<open>pkg\<close>, \<open>banner\<close>, \<open>cri\<close>, \<open>assets\<close> and \<open>shim\<close> are the
  package descriptor and the resolved paths.
\<close>

definition head_ops :: "env \<Rightarrow> path \<Rightarrow> json \<Rightarrow> path \<Rightarrow> session" where
  "head_ops env entry pkg banner =
     [Browserify (Some entry) True,
      Plugin ''browserify-banner''
        (JObj [(''pkg'', JArr [JObj [(''COMMIT_HASH'', JStr (COMMIT_HASH env))], pkg]),
               (''file'', JStr banner)]),
      Transform ''@wardpeet/brfs''
        (JObj [(''global'', JBool True), (''parserOpts'', JObj [(''ecmaVersion'', JNum 10)])]),
      Transform ''package-json-versionify'' JNull]"

definition exclusions :: "env \<Rightarrow> path \<Rightarrow> path \<Rightarrow> path \<Rightarrow> path list" where
  "exclusions env entry cri assets =
     [''source-map'', ''debug/node'', ''intl'', ''intl-pluralrules'', ''raven'', ''rimraf'',
      ''pako/lib/zlib/inflate.js'', cri]
     @ (if isDevtools entry \<or> isLightrider entry then [assets] else [])
     @ (if isDevtools entry then locales env else [])"

definition inclusions :: "env \<Rightarrow> path \<Rightarrow> path \<Rightarrow> (path \<times> string option) list" where
  "inclusions env entry shim =
     map (\<lambda>a. (a, Some (js_replace a corePath ''../''))) (audits env)
     @ map (\<lambda>g. (g, Some (js_replace g driverPath ''../gather/''))) (gatherers env)
     @ (if isDevtools entry
        then (''lighthouse-plugin-publisher-ads'', None) # map (\<lambda>a. (a, None)) (pubAdsAudits env)
        else [])
     @ [(shim, Some ''url'')]"

section \<open>Facts about sessions\<close>

lemma foldl_ignore: "foldl ignore b fs = b @ map Ignore fs"
  by (induction fs arbitrary: b) (simp_all add: ignore_def)

lemma foldl_snoc_Require:
  "foldl (\<lambda>b x. b @ [Require x (f x)]) b xs = b @ map (\<lambda>x. Require x (f x)) xs"
  by (induction xs arbitrary: b) simp_all

lemma ignored_append: "ignored (xs @ ys) = ignored xs @ ignored ys"
  by (induction xs rule: ignored.induct) simp_all

lemma required_append: "required (xs @ ys) = required xs @ required ys"
  by (induction xs rule: required.induct) simp_all

lemma ignored_map_Ignore: "ignored (map Ignore fs) = fs"
  by (induction fs) simp_all

lemma ignored_map_Require: "ignored (map (\<lambda>x. Require x (f x)) xs) = []"
  by (induction xs) simp_all

lemma required_map_Ignore: "required (map Ignore fs) = []"
  by (induction fs) simp_all

lemma required_map_Require:
  "required (map (\<lambda>x. Require x (f x)) xs) = map (\<lambda>x. (x, f x)) xs"
  by (induction xs) simp_all

lemma js_replace_prefix: "pat \<noteq> [] \<Longrightarrow> js_replace (pat @ rest) pat rep = rep @ rest"
  by (cases pat) simp_all

lemma configure_shape:
  assumes "configure env (Some entry) = Inr ops"
  shows "\<exists>pkg banner cri assets shim.
           packageJson env = Some pkg
           \<and> require_resolve env ''./banner.txt'' = Some banner
           \<and> require_resolve env ''../lighthouse-core/gather/connections/cri.js'' = Some cri
           \<and> (isDevtools entry \<or> isLightrider entry \<longrightarrow>
                require_resolve env ''../lighthouse-core/report/html/html-report-assets.js''
                = Some assets)
           \<and> require_resolve env ''../lighthouse-core/lib/url-shim.js'' = Some shim
           \<and> ops = head_ops env entry pkg banner @ map Ignore (exclusions env entry cri assets)
                     @ map (\<lambda>r. Require (fst r) (snd r)) (inclusions env entry shim)"
proof -
  from assms obtain pkg banner cri shim where r:
    "packageJson env = Some pkg"
    "require_resolve env ''./banner.txt'' = Some banner"
    "require_resolve env ''../lighthouse-core/gather/connections/cri.js'' = Some cri"
    "require_resolve env ''../lighthouse-core/lib/url-shim.js'' = Some shim"
    unfolding configure_def Let_def
    by (auto split: option.splits if_splits sum.splits)
  show ?thesis
  proof (cases "isDevtools entry \<or> isLightrider entry")
    case True
    with assms r obtain assets where a:
      "require_resolve env ''../lighthouse-core/report/html/html-report-assets.js'' = Some assets"
      unfolding configure_def Let_def
      by (auto split: option.splits if_splits sum.splits)
    have "ops = head_ops env entry pkg banner @ map Ignore (exclusions env entry cri assets)
           @ map (\<lambda>r. Require (fst r) (snd r)) (inclusions env entry shim)"
      using assms r a True
      unfolding configure_def Let_def head_ops_def exclusions_def inclusions_def
      by (auto simp: foldl_ignore foldl_snoc_Require ignore_all_def ignore_def require_def
          plugin_def transform_def browserify_def comp_def split: if_splits)
    with r a show ?thesis by blast
  next
    case False
    have "ops = head_ops env entry pkg banner @ map Ignore (exclusions env entry cri [])
           @ map (\<lambda>r. Require (fst r) (snd r)) (inclusions env entry shim)"
      using assms r False
      unfolding configure_def Let_def head_ops_def exclusions_def inclusions_def
      by (auto simp: foldl_ignore foldl_snoc_Require ignore_all_def ignore_def require_def
          plugin_def transform_def browserify_def comp_def split: if_splits)
    with r False show ?thesis by blast
  qed
qed

lemma configure_succeeds:
  assumes "packageJson env = Some pkg"
    and "require_resolve env ''./banner.txt'' = Some banner"
    and "require_resolve env ''../lighthouse-core/gather/connections/cri.js'' = Some cri"
    and "require_resolve env ''../lighthouse-core/report/html/html-report-assets.js'' = Some assets"
    and "require_resolve env ''../lighthouse-core/lib/url-shim.js'' = Some shim"
  shows "\<exists>ops. configure env (Some entry) = Inr ops"
  using assms by (simp add: configure_def Let_def)

lemma ignored_head_ops: "ignored (head_ops env entry pkg banner) = []"
  by (simp add: head_ops_def)

lemma required_head_ops: "required (head_ops env entry pkg banner) = []"
  by (simp add: head_ops_def)

lemma required_map_pair: "required (map (\<lambda>r. Require (fst r) (snd r)) rs) = rs"
  by (induction rs) simp_all

lemma ignored_map_pair: "ignored (map (\<lambda>r. Require (fst r) (snd r)) rs) = []"
  by (induction rs) simp_all

lemma ignored_shape:
  "ignored (head_ops env entry pkg banner @ map Ignore xs
            @ map (\<lambda>r. Require (fst r) (snd r)) rs) = xs"
  by (simp add: ignored_append ignored_head_ops ignored_map_Ignore ignored_map_pair)

lemma required_shape:
  "required (head_ops env entry pkg banner @ map Ignore xs
             @ map (\<lambda>r. Require (fst r) (snd r)) rs) = rs"
  by (simp add: required_append required_head_ops required_map_Ignore required_map_pair)

section \<open>The embedded-tooling bundle\<close>

lemma example_devtools_configure:
  "configure example_env (Some ''/lh/clients/devtools-entry.js'') = Inr example_devtools_session"
  by code_simp

lemma example_isDevtools: "isDevtools ''/lh/clients/devtools-entry.js''"
  by code_simp

text \<open>
  Claim C2. When the basename of the entry path contains \<^verbatim>\<open>devtools\<close>, the configured
  session excludes the resolved report template module \<^verbatim>\<open>html-report-assets.js\<close> and
  every locale module, and it registers the publisher-ads plugin and each of the plugin's
  audit modules.
\<close>

theorem devtools_policy:
  assumes "configure env (Some entryPath) = Inr ops" and "isDevtools entryPath"
  shows "(\<exists>assets.
            require_resolve env ''../lighthouse-core/report/html/html-report-assets.js'' = Some assets
            \<and> assets \<in> set (ignored ops))
         \<and> set (locales env) \<subseteq> set (ignored ops)
         \<and> (''lighthouse-plugin-publisher-ads'', None) \<in> set (required ops)
         \<and> (\<forall>a \<in> set (pubAdsAudits env). (a, None) \<in> set (required ops))"
proof -
  from configure_shape [OF assms(1)] obtain pkg banner cri assets shim where
    a: "isDevtools entryPath \<or> isLightrider entryPath \<longrightarrow>
        require_resolve env ''../lighthouse-core/report/html/html-report-assets.js'' = Some assets"
    and ops: "ops = head_ops env entryPath pkg banner
              @ map Ignore (exclusions env entryPath cri assets)
              @ map (\<lambda>r. Require (fst r) (snd r)) (inclusions env entryPath shim)"
    by blast
  have i: "ignored ops = exclusions env entryPath cri assets"
    unfolding ops by (rule ignored_shape)
  have r: "required ops = inclusions env entryPath shim"
    unfolding ops by (rule required_shape)
  have "assets \<in> set (ignored ops)"
    using assms(2) by (simp add: i exclusions_def)
  moreover have "set (locales env) \<subseteq> set (ignored ops)"
    using assms(2) by (auto simp: i exclusions_def)
  moreover have "(''lighthouse-plugin-publisher-ads'', None) \<in> set (required ops)"
    using assms(2) by (simp add: r inclusions_def)
  moreover have "\<forall>a \<in> set (pubAdsAudits env). (a, None) \<in> set (required ops)"
    using assms(2) by (simp add: r inclusions_def)
  ultimately show ?thesis using a assms(2) by blast
qed

theorem devtools_policy_witness:
  "configure example_env (Some ''/lh/clients/devtools-entry.js'') = Inr example_devtools_session
   \<and> isDevtools ''/lh/clients/devtools-entry.js''
   \<and> ''/lh/lighthouse-core/report/html/html-report-assets.js''
       \<in> set (ignored example_devtools_session)
   \<and> set (locales example_env) \<subseteq> set (ignored example_devtools_session)
   \<and> (''lighthouse-plugin-publisher-ads'', None) \<in> set (required example_devtools_session)
   \<and> (''lighthouse-plugin-publisher-ads/audits/ad-blocking-tasks'', None)
       \<in> set (required example_devtools_session)"
  using devtools_policy [OF example_devtools_configure example_isDevtools]
    example_devtools_configure example_isDevtools
  by (simp add: example_env_def)

section \<open>The bundle of an entry that matches no rule\<close>

lemma example_plain_configure:
  "configure example_env (Some ''/lh/lighthouse-cli/index.js'') = Inr example_plain_session"
  by code_simp

lemma example_plain_entry:
  "\<not> isDevtools ''/lh/lighthouse-cli/index.js''" "\<not> isLightrider ''/lh/lighthouse-cli/index.js''"
  by code_simp+

text \<open>
  Claim C4. When the basename of the entry path contains neither \<^verbatim>\<open>devtools\<close> nor
  \<^verbatim>\<open>lightrider\<close>, the excluded modules are exactly the fixed list (\<^verbatim>\<open>source-map\<close>,
  \<^verbatim>\<open>debug/node\<close>, \<^verbatim>\<open>intl\<close>, \<^verbatim>\<open>intl-pluralrules\<close>, \<^verbatim>\<open>raven\<close>, \<^verbatim>\<open>rimraf\<close>, pako's inflate
  submodule and the resolved \<^verbatim>\<open>cri.js\<close>): no report template and no locale is added to
  it. The registered modules are the audits, the gatherers and the URL shim, each under a
  name; the plugin and its audits, which are registered without a name, are not there.
\<close>

theorem plain_policy:
  assumes "configure env (Some entryPath) = Inr ops"
    and "\<not> isDevtools entryPath" and "\<not> isLightrider entryPath"
  shows "\<exists>cri shim.
           require_resolve env ''../lighthouse-core/gather/connections/cri.js'' = Some cri
           \<and> require_resolve env ''../lighthouse-core/lib/url-shim.js'' = Some shim
           \<and> ignored ops =
               [''source-map'', ''debug/node'', ''intl'', ''intl-pluralrules'', ''raven'',
                ''rimraf'', ''pako/lib/zlib/inflate.js'', cri]
           \<and> required ops =
               map (\<lambda>a. (a, Some (js_replace a ''./lighthouse-core/'' ''../''))) (audits env)
               @ map (\<lambda>g. (g, Some (js_replace g ''./lighthouse-core/gather/'' ''../gather/'')))
                   (gatherers env)
               @ [(shim, Some ''url'')]
           \<and> (\<forall>m. (m, None) \<notin> set (required ops))"
proof -
  from configure_shape [OF assms(1)] obtain pkg banner cri assets shim where
    c: "require_resolve env ''../lighthouse-core/gather/connections/cri.js'' = Some cri"
    and u: "require_resolve env ''../lighthouse-core/lib/url-shim.js'' = Some shim"
    and ops: "ops = head_ops env entryPath pkg banner
              @ map Ignore (exclusions env entryPath cri assets)
              @ map (\<lambda>r. Require (fst r) (snd r)) (inclusions env entryPath shim)"
    by blast
  have i: "ignored ops = exclusions env entryPath cri assets"
    unfolding ops by (rule ignored_shape)
  have r: "required ops = inclusions env entryPath shim"
    unfolding ops by (rule required_shape)
  have "ignored ops =
          [''source-map'', ''debug/node'', ''intl'', ''intl-pluralrules'', ''raven'',
           ''rimraf'', ''pako/lib/zlib/inflate.js'', cri]"
    using assms(2,3) by (simp add: i exclusions_def)
  moreover have r': "required ops =
      map (\<lambda>a. (a, Some (js_replace a ''./lighthouse-core/'' ''../''))) (audits env)
      @ map (\<lambda>g. (g, Some (js_replace g ''./lighthouse-core/gather/'' ''../gather/'')))
          (gatherers env)
      @ [(shim, Some ''url'')]"
    using assms(2) by (simp add: r inclusions_def corePath_def driverPath_def)
  moreover have "\<forall>m. (m, None) \<notin> set (required ops)"
    unfolding r' by auto
  ultimately show ?thesis using c u by blast
qed

theorem plain_policy_witness:
  "configure example_env (Some ''/lh/lighthouse-cli/index.js'') = Inr example_plain_session
   \<and> \<not> isDevtools ''/lh/lighthouse-cli/index.js''
   \<and> \<not> isLightrider ''/lh/lighthouse-cli/index.js''
   \<and> ignored example_plain_session =
       [''source-map'', ''debug/node'', ''intl'', ''intl-pluralrules'', ''raven'',
        ''rimraf'', ''pako/lib/zlib/inflate.js'', ''/lh/lighthouse-core/gather/connections/cri.js'']
   \<and> (''lighthouse-plugin-publisher-ads'', None) \<notin> set (required example_plain_session)
   \<and> (''lighthouse-plugin-publisher-ads/audits/ad-blocking-tasks'', None)
       \<notin> set (required example_plain_session)"
proof -
  from plain_policy [OF example_plain_configure example_plain_entry]
  obtain cri where
    c: "require_resolve example_env ''../lighthouse-core/gather/connections/cri.js'' = Some cri"
    and i: "ignored example_plain_session =
              [''source-map'', ''debug/node'', ''intl'', ''intl-pluralrules'', ''raven'',
               ''rimraf'', ''pako/lib/zlib/inflate.js'', cri]"
    and n: "\<forall>m. (m, None) \<notin> set (required example_plain_session)"
    by blast
  from c have "cri = ''/lh/lighthouse-core/gather/connections/cri.js''"
    by (simp add: example_env_def)
  with i n example_plain_configure example_plain_entry show ?thesis
    by blast
qed

section \<open>Logical load paths\<close>

text \<open>
  Claim C8. Every audit of the audit list is registered under the path obtained by
  replacing its prefix \<^verbatim>\<open>./lighthouse-core/\<close> with \<^verbatim>\<open>../\<close>, and every gatherer of the
  gatherer list under the path obtained by replacing \<^verbatim>\<open>./lighthouse-core/gather/\<close> with
  \<^verbatim>\<open>../gather/\<close>. A registration under a name is one of these, or the URL shim under
  \<^verbatim>\<open>url\<close>.
\<close>

theorem registry_load_paths:
  assumes "configure env (Some entryPath) = Inr ops"
  shows "(\<forall>f \<in> set (getAuditList env).
            (''./lighthouse-core/audits/'' @ replace_js_ext f,
             Some (''../audits/'' @ replace_js_ext f)) \<in> set (required ops))
         \<and> (\<forall>f \<in> set (getGathererList env).
            (''./lighthouse-core/gather/gatherers/'' @ replace_js_ext f,
             Some (''../gather/gatherers/'' @ replace_js_ext f)) \<in> set (required ops))
         \<and> (\<forall>a \<in> set (audits env). \<exists>rest.
              a = ''./lighthouse-core/'' @ rest
              \<and> js_replace a ''./lighthouse-core/'' ''../'' = ''../'' @ rest)
         \<and> (\<forall>g \<in> set (gatherers env). \<exists>rest.
              g = ''./lighthouse-core/gather/'' @ rest
              \<and> js_replace g ''./lighthouse-core/gather/'' ''../gather/'' = ''../gather/'' @ rest)
         \<and> (\<forall>p e. (p, Some e) \<in> set (required ops) \<longrightarrow>
              (p \<in> set (audits env) \<and> e = js_replace p ''./lighthouse-core/'' ''../'')
              \<or> (p \<in> set (gatherers env)
                  \<and> e = js_replace p ''./lighthouse-core/gather/'' ''../gather/'')
              \<or> (require_resolve env ''../lighthouse-core/lib/url-shim.js'' = Some p
                  \<and> e = ''url''))"
proof -
  from configure_shape [OF assms(1)] obtain pkg banner cri assets shim where
    u: "require_resolve env ''../lighthouse-core/lib/url-shim.js'' = Some shim"
    and ops: "ops = head_ops env entryPath pkg banner
              @ map Ignore (exclusions env entryPath cri assets)
              @ map (\<lambda>r. Require (fst r) (snd r)) (inclusions env entryPath shim)"
    by blast
  have r: "required ops = inclusions env entryPath shim"
    unfolding ops by (rule required_shape)
  have a: "js_replace (''./lighthouse-core/'' @ rest) ''./lighthouse-core/'' ''../'' = ''../'' @ rest"
    for rest by (rule js_replace_prefix) simp
  have g: "js_replace (''./lighthouse-core/gather/'' @ rest) ''./lighthouse-core/gather/''
             ''../gather/'' = ''../gather/'' @ rest"
    for rest by (rule js_replace_prefix) simp
  have 1: "\<forall>f \<in> set (getAuditList env).
            (''./lighthouse-core/audits/'' @ replace_js_ext f,
             Some (''../audits/'' @ replace_js_ext f)) \<in> set (required ops)"
    using a [of "''audits/'' @ replace_js_ext f" for f]
    by (auto simp: r inclusions_def audits_def corePath_def)
  have 2: "\<forall>f \<in> set (getGathererList env).
            (''./lighthouse-core/gather/gatherers/'' @ replace_js_ext f,
             Some (''../gather/gatherers/'' @ replace_js_ext f)) \<in> set (required ops)"
    using g [of "''gatherers/'' @ replace_js_ext f" for f]
    by (auto simp: r inclusions_def gatherers_def corePath_def driverPath_def)
  have 3: "\<forall>a \<in> set (audits env). \<exists>rest.
              a = ''./lighthouse-core/'' @ rest
              \<and> js_replace a ''./lighthouse-core/'' ''../'' = ''../'' @ rest"
    using a [of "''audits/'' @ replace_js_ext f" for f]
    by (auto simp: audits_def)
  have 4: "\<forall>g \<in> set (gatherers env). \<exists>rest.
              g = ''./lighthouse-core/gather/'' @ rest
              \<and> js_replace g ''./lighthouse-core/gather/'' ''../gather/'' = ''../gather/'' @ rest"
    using g [of "''gatherers/'' @ replace_js_ext f" for f]
    by (auto simp: gatherers_def)
  have 5: "\<forall>p e. (p, Some e) \<in> set (required ops) \<longrightarrow>
              (p \<in> set (audits env) \<and> e = js_replace p ''./lighthouse-core/'' ''../'')
              \<or> (p \<in> set (gatherers env)
                  \<and> e = js_replace p ''./lighthouse-core/gather/'' ''../gather/'')
              \<or> (require_resolve env ''../lighthouse-core/lib/url-shim.js'' = Some p
                  \<and> e = ''url'')"
    using u by (auto simp: r inclusions_def corePath_def driverPath_def)
  from 1 2 3 4 5 show ?thesis by blast
qed

lemma example_replace_js_ext:
  "replace_js_ext ''sized-images.js'' = ''sized-images''"
  "replace_js_ext ''image-elements.js'' = ''image-elements''"
  by code_simp+

theorem registry_load_paths_witness:
  "configure example_env (Some ''/lh/clients/devtools-entry.js'') = Inr example_devtools_session
   \<and> (''./lighthouse-core/audits/sized-images'', Some ''../audits/sized-images'')
       \<in> set (required example_devtools_session)
   \<and> (''./lighthouse-core/gather/gatherers/image-elements'',
        Some ''../gather/gatherers/image-elements'')
       \<in> set (required example_devtools_session)"
proof -
  note t = registry_load_paths [OF example_devtools_configure]
  have a: "''sized-images.js'' \<in> set (getAuditList example_env)"
    by (simp add: example_env_def)
  have g: "''image-elements.js'' \<in> set (getGathererList example_env)"
    by (simp add: example_env_def)
  from t a have "(''./lighthouse-core/audits/'' @ replace_js_ext ''sized-images.js'',
      Some (''../audits/'' @ replace_js_ext ''sized-images.js''))
      \<in> set (required example_devtools_session)"
    by blast
  moreover from t g have "(''./lighthouse-core/gather/gatherers/''
        @ replace_js_ext ''image-elements.js'',
      Some (''../gather/gatherers/'' @ replace_js_ext ''image-elements.js''))
      \<in> set (required example_devtools_session)"
    by blast
  ultimately show ?thesis
    using example_devtools_configure by (simp add: example_replace_js_ext)
qed

section \<open>Exclusions and inclusions\<close>

lemma ignores_first:
  assumes "\<forall>x \<in> set A. \<not> is_require x" and "\<forall>y \<in> set B. \<not> is_ignore y"
    and "i < length (A @ B)" and "j < length (A @ B)"
    and "is_ignore ((A @ B) ! i)" and "is_require ((A @ B) ! j)"
  shows "i < j"
proof -
  have i: "i < length A"
  proof (rule ccontr)
    assume "\<not> i < length A"
    with assms(3,5) have "is_ignore (B ! (i - length A))" and "i - length A < length B"
      by (auto simp: nth_append)
    with assms(2) show False by (metis nth_mem)
  qed
  have "\<not> j < length A"
  proof
    assume "j < length A"
    with assms(6) have "is_require (A ! j)" by (simp add: nth_append)
    with assms(1) \<open>j < length A\<close> show False by (metis nth_mem)
  qed
  with i show ?thesis by simp
qed

lemma required_no_require: "\<forall>x \<in> set A. \<not> is_require x \<Longrightarrow> required A = []"
  by (induction A rule: required.induct) simp_all

lemma ignored_no_ignore: "\<forall>y \<in> set B. \<not> is_ignore y \<Longrightarrow> ignored B = []"
  by (induction B rule: ignored.induct) simp_all

lemma head_ops_plain: "\<forall>x \<in> set (head_ops env entry pkg banner). \<not> is_require x \<and> \<not> is_ignore x"
  by (simp add: head_ops_def)

lemma excluded_foldl:
  "excluded (foldl apply_op b ops) = excluded b @ ignored ops"
  by (induction ops arbitrary: b rule: ignored.induct) simp_all

lemma registered_foldl:
  "registered (foldl apply_op b ops) = registered b @ required ops"
  by (induction ops arbitrary: b rule: required.induct) simp_all

lemma excluded_bundler_of: "excluded (bundler_of ops) = ignored ops"
  by (simp add: bundler_of_def excluded_foldl)

lemma registered_bundler_of: "registered (bundler_of ops) = required ops"
  by (simp add: bundler_of_def registered_foldl)

lemma ignored_member: "Ignore m \<in> set ops \<Longrightarrow> m \<in> set (ignored ops)"
  by (induction ops rule: ignored.induct) auto

lemma stub_after_ignore:
  assumes "i < k" and "k \<le> length ops" and "ops ! i = Ignore m"
  shows "body_of (bundler_of (take k ops)) m = EmptyStub"
proof -
  from assms have "take k ops ! i = Ignore m" and "i < length (take k ops)"
    by simp_all
  then have "Ignore m \<in> set (take k ops)"
    by (metis nth_mem)
  then show ?thesis
    by (simp add: body_of_def excluded_bundler_of ignored_member)
qed

text \<open>
  Claim C7. In a configured session every \<^verbatim>\<open>ignore\<close> call precedes every \<^verbatim>\<open>require\<close>
  call. A module that was excluded is the empty stub at every later point of the
  session, whatever was registered in between, and so it is when the bundle is made: the
  registrations reach the bundler's list of registrations and leave its list of excluded
  modules, which holds the seven fixed names, as the \<^verbatim>\<open>ignore\<close> calls made it.
\<close>

theorem exclusions_precede_inclusions:
  assumes "configure env (Some entryPath) = Inr ops"
  shows "(\<forall>i j. i < length ops \<and> j < length ops \<and> is_ignore (ops ! i) \<and> is_require (ops ! j)
            \<longrightarrow> i < j)
         \<and> (\<forall>i k m. i < k \<and> k \<le> length ops \<and> ops ! i = Ignore m
            \<longrightarrow> body_of (bundler_of (take k ops)) m = EmptyStub)
         \<and> excluded (bundler_of ops) = ignored ops
         \<and> registered (bundler_of ops) = required ops
         \<and> (\<forall>m \<in> set [''source-map'', ''debug/node'', ''intl'', ''intl-pluralrules'', ''raven'',
                      ''rimraf'', ''pako/lib/zlib/inflate.js''].
              body_of (bundler_of ops) m = EmptyStub)"
proof -
  from configure_shape [OF assms(1)] obtain pkg banner cri assets shim where
    ops: "ops = head_ops env entryPath pkg banner
              @ map Ignore (exclusions env entryPath cri assets)
              @ map (\<lambda>r. Require (fst r) (snd r)) (inclusions env entryPath shim)"
    by blast
  define A where "A = head_ops env entryPath pkg banner
              @ map Ignore (exclusions env entryPath cri assets)"
  define B where "B = map (\<lambda>r. Require (fst r) (snd r)) (inclusions env entryPath shim)"
  have AB: "ops = A @ B" by (simp add: ops A_def B_def)
  have A: "\<forall>x \<in> set A. \<not> is_require x"
    using head_ops_plain by (auto simp: A_def)
  have B: "\<forall>y \<in> set B. \<not> is_ignore y"
    by (auto simp: B_def)
  have order: "\<forall>i j. i < length ops \<and> j < length ops \<and> is_ignore (ops ! i)
      \<and> is_require (ops ! j) \<longrightarrow> i < j"
    unfolding AB using ignores_first [OF A B] by blast
  have later: "\<forall>i k m. i < k \<and> k \<le> length ops \<and> ops ! i = Ignore m
      \<longrightarrow> body_of (bundler_of (take k ops)) m = EmptyStub"
  proof (intro allI impI)
    fix i k m
    assume "i < k \<and> k \<le> length ops \<and> ops ! i = Ignore m"
    then show "body_of (bundler_of (take k ops)) m = EmptyStub"
      by (intro stub_after_ignore [of i k ops m]) simp_all
  qed
  have i: "ignored ops = exclusions env entryPath cri assets"
    unfolding ops by (rule ignored_shape)
  have fixed: "\<forall>m \<in> set [''source-map'', ''debug/node'', ''intl'', ''intl-pluralrules'', ''raven'',
                      ''rimraf'', ''pako/lib/zlib/inflate.js''].
              body_of (bundler_of ops) m = EmptyStub"
    by (simp add: body_of_def excluded_bundler_of i exclusions_def)
  show ?thesis
    by (intro conjI order later fixed excluded_bundler_of registered_bundler_of)
qed

lemma overlap_configure:
  "configure overlap_env (Some ''/lh/clients/devtools-entry.js'') = Inr overlap_session"
  by code_simp

text \<open>
  The witness is a devtools build whose plugin lists \<^verbatim>\<open>rimraf\<close>: the module is excluded
  by the tenth call and registered by the twentieth, and it stays the empty stub.
\<close>

theorem exclusions_precede_inclusions_witness:
  "configure overlap_env (Some ''/lh/clients/devtools-entry.js'') = Inr overlap_session
   \<and> overlap_session ! 9 = Ignore ''rimraf''
   \<and> overlap_session ! 19 = Require ''rimraf'' None
   \<and> (''rimraf'', None) \<in> set (registered (bundler_of overlap_session))
   \<and> body_of (bundler_of (take 20 overlap_session)) ''rimraf'' = EmptyStub
   \<and> body_of (bundler_of overlap_session) ''rimraf'' = EmptyStub"
proof -
  note t = exclusions_precede_inclusions [OF overlap_configure]
  have n: "overlap_session ! 9 = Ignore ''rimraf''"
    "overlap_session ! 19 = Require ''rimraf'' None"
    "length overlap_session = 21"
    by (simp_all add: overlap_session_def example_head_def example_registry_def)
  from t have l: "\<And>i k m. i < k \<Longrightarrow> k \<le> length overlap_session
      \<Longrightarrow> overlap_session ! i = Ignore m
      \<Longrightarrow> body_of (bundler_of (take k overlap_session)) m = EmptyStub"
    by blast
  have "body_of (bundler_of (take 20 overlap_session)) ''rimraf'' = EmptyStub"
    by (rule l [of 9]) (simp_all add: n)
  moreover from t have "body_of (bundler_of overlap_session) ''rimraf'' = EmptyStub"
    by simp
  moreover from t have "(''rimraf'', None) \<in> set (registered (bundler_of overlap_session))"
    by (simp add: overlap_session_def example_head_def example_registry_def)
  ultimately show ?thesis using overlap_configure n by blast
qed

section \<open>Facts about minifyScript\<close>

lemma new_events_append [simp]:
  "trace w' = trace w @ evs \<Longrightarrow> new_events w w' = evs"
  by (simp add: new_events_def)

lemma minifyScript_no_bundle:
  assumes "files w filePath = None"
  shows "minifyScript env filePath w = (Inl (ENOENT filePath), log_event (ReadFile filePath) w)"
  using assms by (simp add: minifyScript_def readFileSync_def)

lemma minifyScript_no_map:
  assumes "files w filePath = Some src" and "files w (filePath @ ''.map'') = None"
  shows "minifyScript env filePath w =
           (Inl (ENOENT (filePath @ ''.map'')),
            log_event (ReadFile (filePath @ ''.map'')) (log_event (ReadFile filePath) w))"
  using assms by (simp add: minifyScript_def readFileSync_def log_event_def)

lemma minifyScript_bad_map:
  assumes "files w filePath = Some src" and "files w (filePath @ ''.map'') = Some mapText"
    and "JSON_parse env mapText = None"
  shows "minifyScript env filePath w =
           (Inl SyntaxError,
            log_event (ReadFile (filePath @ ''.map'')) (log_event (ReadFile filePath) w))"
  using assms by (simp add: minifyScript_def readFileSync_def log_event_def)

lemma minifyScript_minifier_error:
  assumes "files w filePath = Some src" and "files w (filePath @ ''.map'') = Some mapText"
    and "JSON_parse env mapText = Some content"
    and "result_error (terser_minify env src (terser_options content filePath)) = Some e"
  shows "minifyScript env filePath w =
           (Inl e,
            log_event (TerserMinify src (terser_options content filePath))
              (log_event (ReadFile (filePath @ ''.map'')) (log_event (ReadFile filePath) w)))"
  using assms by (simp add: minifyScript_def readFileSync_def log_event_def Let_def)

lemma minifyScript_success:
  assumes "files w filePath = Some src" and "files w (filePath @ ''.map'') = Some mapText"
    and "JSON_parse env mapText = Some content"
    and "result_error (terser_minify env src (terser_options content filePath)) = None"
  shows "minifyScript env filePath w =
           (Inr (),
            writeFileSync (filePath @ ''.map'')
              (result_map (terser_minify env src (terser_options content filePath)))
              (writeFileSync filePath
                (result_code (terser_minify env src (terser_options content filePath)))
                (log_event (TerserMinify src (terser_options content filePath))
                  (log_event (ReadFile (filePath @ ''.map'')) (log_event (ReadFile filePath) w)))))"
  using assms by (simp add: minifyScript_def readFileSync_def log_event_def Let_def)

text \<open>The events of a run of \<^verbatim>\<open>minifyScript\<close>, by the way it ends.\<close>

lemma minifyScript_events:
  "new_events w (snd (minifyScript env filePath w)) \<in>
     {[ReadFile filePath], [ReadFile filePath, ReadFile (filePath @ ''.map'')]}
   \<or> (\<exists>src content. files w filePath = Some src \<and>
        (new_events w (snd (minifyScript env filePath w)) =
           [ReadFile filePath, ReadFile (filePath @ ''.map''),
            TerserMinify src (terser_options content filePath)]
         \<or> (\<exists>c m. new_events w (snd (minifyScript env filePath w)) =
           [ReadFile filePath, ReadFile (filePath @ ''.map''),
            TerserMinify src (terser_options content filePath),
            WriteFile filePath c, WriteFile (filePath @ ''.map'') m])))"
proof (cases "files w filePath")
  case None
  then show ?thesis by (simp add: minifyScript_no_bundle log_event_def)
next
  case (Some src)
  note s = this
  show ?thesis
  proof (cases "files w (filePath @ ''.map'')")
    case None
    with s show ?thesis by (simp add: minifyScript_no_map log_event_def)
  next
    case (Some mapText)
    note m = this
    show ?thesis
    proof (cases "JSON_parse env mapText")
      case None
      with s m show ?thesis by (simp add: minifyScript_bad_map log_event_def)
    next
      case (Some content)
      note c = this
      show ?thesis
      proof (cases "result_error (terser_minify env src (terser_options content filePath))")
        case None
        with s m c show ?thesis
          by (auto simp: minifyScript_success log_event_def writeFileSync_def)
      next
        case (Some e)
        with s m c show ?thesis
          by (auto simp: minifyScript_minifier_error log_event_def)
      qed
    qed
  qed
qed

section \<open>The minifier stage\<close>

text \<open>
  Claim C5. When both reads and the parse of the map succeed, the minifier is called.
  If its result carries an error, \<^verbatim>\<open>minifyScript\<close> throws that error, writes nothing, and
  the files are as before. Otherwise the file holds the minified code and its
  \<^verbatim>\<open>.map\<close> file the updated map.
\<close>

theorem minifyScript_outcome:
  assumes "files w filePath = Some src"
    and "files w (filePath @ ''.map'') = Some mapText"
    and "JSON_parse env mapText = Some content"
  shows "let result = terser_minify env src (terser_options content filePath);
             w' = snd (minifyScript env filePath w)
         in (\<forall>e. result_error result = Some e \<longrightarrow>
               fst (minifyScript env filePath w) = Inl e
               \<and> files w' = files w
               \<and> (\<forall>p s. WriteFile p s \<notin> set (new_events w w')))
            \<and> (result_error result = None \<longrightarrow>
               fst (minifyScript env filePath w) = Inr ()
               \<and> files w' = (files w)(filePath \<mapsto> result_code result,
                                        filePath @ ''.map'' \<mapsto> result_map result))"
proof (cases "result_error (terser_minify env src (terser_options content filePath))")
  case None
  from minifyScript_success [OF assms None] show ?thesis
    by (simp add: Let_def None writeFileSync_def log_event_def)
next
  case (Some e)
  from minifyScript_minifier_error [OF assms Some] show ?thesis
    by (simp add: Let_def Some log_event_def)
qed

lemma bundled_world_files:
  "files bundled_world ''/lh/dist/out.js'' = Some ''var answer = 42;''"
  "files bundled_world (''/lh/dist/out.js'' @ ''.map'') = Some ''{}''"
  by (simp_all add: bundled_world_def)

lemma example_JSON_parse:
  "JSON_parse example_env ''{}'' = Some (JObj [])"
  "JSON_parse failing_minifier_env ''{}'' = Some (JObj [])"
  by (simp_all add: example_env_def failing_minifier_env_def)

theorem minifyScript_outcome_witness:
  "fst (minifyScript example_env ''/lh/dist/out.js'' bundled_world) = Inr ()
   \<and> files (snd (minifyScript example_env ''/lh/dist/out.js'' bundled_world)) =
       [''/lh/dist/out.js'' \<mapsto> ''var answer=42;'', ''/lh/dist/out.js.map'' \<mapsto> ''{}'']
   \<and> fst (minifyScript failing_minifier_env ''/lh/dist/out.js'' bundled_world) =
       Inl (MinifyError ''Unexpected token'')
   \<and> files (snd (minifyScript failing_minifier_env ''/lh/dist/out.js'' bundled_world)) =
       files bundled_world"
  using minifyScript_outcome [OF bundled_world_files example_JSON_parse(1)]
    minifyScript_outcome [OF bundled_world_files example_JSON_parse(2)]
  by (simp add: Let_def example_env_def failing_minifier_env_def bundled_world_def)

text \<open>
  Claim C6. Every call of the minifier that \<^verbatim>\<open>minifyScript\<close> makes, for any file, any
  content and any installation, keeps function names and class names and reserves
  exactly \<^verbatim>\<open>ChromeProtocol\<close>, \<^verbatim>\<open>mkdirp\<close>, \<^verbatim>\<open>rimraf\<close> and \<^verbatim>\<open>fs\<close>.
\<close>

theorem minifier_policy:
  assumes "TerserMinify src opts \<in> set (new_events w (snd (minifyScript env filePath w)))"
  shows "keep_fnames opts \<and> keep_classnames opts
         \<and> mangle_reserved opts = [''ChromeProtocol'', ''mkdirp'', ''rimraf'', ''fs'']"
proof -
  from assms minifyScript_events [of w env filePath]
  obtain content where "opts = terser_options content filePath"
    by auto
  then show ?thesis by (simp add: terser_options_def)
qed

theorem minifier_policy_witness:
  "TerserMinify ''var answer = 42;'' (terser_options (JObj []) ''/lh/dist/out.js'')
     \<in> set (new_events bundled_world (snd (minifyScript example_env ''/lh/dist/out.js'' bundled_world)))
   \<and> keep_fnames (terser_options (JObj []) ''/lh/dist/out.js'')
   \<and> keep_classnames (terser_options (JObj []) ''/lh/dist/out.js'')
   \<and> mangle_reserved (terser_options (JObj []) ''/lh/dist/out.js'') =
       [''ChromeProtocol'', ''mkdirp'', ''rimraf'', ''fs'']"
proof -
  have r: "result_error (terser_minify example_env ''var answer = 42;''
             (terser_options (JObj []) ''/lh/dist/out.js'')) = None"
    by (simp add: example_env_def)
  have e: "TerserMinify ''var answer = 42;'' (terser_options (JObj []) ''/lh/dist/out.js'')
     \<in> set (new_events bundled_world (snd (minifyScript example_env ''/lh/dist/out.js'' bundled_world)))"
    by (simp add: minifyScript_success [OF bundled_world_files example_JSON_parse(1) r]
        writeFileSync_def log_event_def new_events_def)
  from minifier_policy [OF e] e show ?thesis by blast
qed

text \<open>
  Claim C10. A call of the minifier comes after the read of the bundle and the read of
  its map, in this order. When the bundle or the map cannot be read, \<^verbatim>\<open>minifyScript\<close>
  throws the error of that read, and the world is as before except for the record of the
  reads: no file is written.
\<close>

theorem minifyScript_reads_first:
  "(\<forall>src opts.
      TerserMinify src opts \<in> set (new_events w (snd (minifyScript env filePath w))) \<longrightarrow>
      take 3 (new_events w (snd (minifyScript env filePath w))) =
        [ReadFile filePath, ReadFile (filePath @ ''.map''), TerserMinify src opts])
   \<and> (files w filePath = None \<longrightarrow>
        minifyScript env filePath w =
          (Inl (ENOENT filePath), w\<lparr>trace := trace w @ [ReadFile filePath]\<rparr>))
   \<and> (files w filePath \<noteq> None \<and> files w (filePath @ ''.map'') = None \<longrightarrow>
        minifyScript env filePath w =
          (Inl (ENOENT (filePath @ ''.map'')),
           w\<lparr>trace := trace w @ [ReadFile filePath, ReadFile (filePath @ ''.map'')]\<rparr>))"
proof -
  have 1: "\<forall>src opts.
      TerserMinify src opts \<in> set (new_events w (snd (minifyScript env filePath w))) \<longrightarrow>
      take 3 (new_events w (snd (minifyScript env filePath w))) =
        [ReadFile filePath, ReadFile (filePath @ ''.map''), TerserMinify src opts]"
    using minifyScript_events [of w env filePath] by auto
  have 2: "files w filePath = None \<longrightarrow>
        minifyScript env filePath w =
          (Inl (ENOENT filePath), w\<lparr>trace := trace w @ [ReadFile filePath]\<rparr>)"
    by (simp add: minifyScript_no_bundle log_event_def)
  have 3: "files w filePath \<noteq> None \<and> files w (filePath @ ''.map'') = None \<longrightarrow>
        minifyScript env filePath w =
          (Inl (ENOENT (filePath @ ''.map'')),
           w\<lparr>trace := trace w @ [ReadFile filePath, ReadFile (filePath @ ''.map'')]\<rparr>)"
    by (auto simp: minifyScript_no_map log_event_def)
  from 1 2 3 show ?thesis by blast
qed

theorem minifyScript_reads_first_witness:
  "files mapless_world ''/lh/dist/out.js'' \<noteq> None
   \<and> files mapless_world (''/lh/dist/out.js'' @ ''.map'') = None
   \<and> minifyScript example_env ''/lh/dist/out.js'' mapless_world =
       (Inl (ENOENT ''/lh/dist/out.js.map''),
        mapless_world\<lparr>trace := [ReadFile ''/lh/dist/out.js'', ReadFile ''/lh/dist/out.js.map'']\<rparr>)"
proof -
  have f: "files mapless_world ''/lh/dist/out.js'' \<noteq> None"
    "files mapless_world (''/lh/dist/out.js'' @ ''.map'') = None"
    by (simp_all add: mapless_world_def)
  with minifyScript_reads_first [of mapless_world example_env "''/lh/dist/out.js''"]
  have "minifyScript example_env ''/lh/dist/out.js'' mapless_world =
          (Inl (ENOENT (''/lh/dist/out.js'' @ ''.map'')),
           mapless_world\<lparr>trace := trace mapless_world
             @ [ReadFile ''/lh/dist/out.js'', ReadFile (''/lh/dist/out.js'' @ ''.map'')]\<rparr>)"
    by blast
  with f show ?thesis by (simp add: mapless_world_def)
qed

section \<open>A missing package descriptor\<close>

text \<open>
  Claim C3. When the package descriptor cannot be loaded, \<^verbatim>\<open>build\<close> is rejected with
  that error and the world is unchanged: no directory is made, no write stream is
  opened, and neither the bundle nor its map is written.
\<close>

theorem build_fails_without_package_descriptor:
  assumes "packageJson env = None"
  shows "build env entryPath distPath w = (Rejected (ModuleNotFound ''../package.json''), w)"
  using assms by (simp add: build_def browserifyFile_def configure_def Let_def)

theorem build_fails_without_package_descriptor_witness:
  "packageJson no_package_env = None
   \<and> build no_package_env (Some ''/lh/clients/devtools-entry.js'') (Some ''/lh/dist/out.js'')
         example_world
       = (Rejected (ModuleNotFound ''../package.json''), example_world)"
proof -
  have n: "packageJson no_package_env = None"
    by (simp add: no_package_env_def)
  from build_fails_without_package_descriptor [OF n] n show ?thesis by blast
qed

section \<open>Streams and the promise of browserifyFile\<close>

lemma run_streams_fulfilled:
  "fst (run_streams dist script (p, w)) = Fulfilled \<Longrightarrow>
   p = Fulfilled \<or> Emit WriteStream Finish \<in> set script"
proof (induction script arbitrary: p w)
  case Nil
  then show ?case by simp
next
  case (Cons a script)
  show ?case
  proof (cases "crashes a")
    case True
    with Cons.prems show ?thesis
      by (cases "(dist, a, (p, w))" rule: stream_step.cases) auto
  next
    case False
    obtain p' w' where s: "stream_step dist a (p, w) = (p', w')"
      by (cases "stream_step dist a (p, w)")
    with Cons.prems False have "fst (run_streams dist script (p', w')) = Fulfilled"
      by simp
    from Cons.IH [OF this] have "p' = Fulfilled \<or> Emit WriteStream Finish \<in> set script" .
    moreover have "p' = Fulfilled \<Longrightarrow> p = Fulfilled \<or> a = Emit WriteStream Finish"
      using s
      by (cases "(dist, a, (p, w))" rule: stream_step.cases)
        (auto simp: resolve_def reject_def split: if_splits)
    ultimately show ?thesis by auto
  qed
qed

lemma run_streams_rejected:
  "fst (run_streams dist script (p, w)) = Rejected e \<Longrightarrow>
   p = Rejected e \<or> Emit WriteStream (ErrorEvent e) \<in> set script"
proof (induction script arbitrary: p w)
  case Nil
  then show ?case by simp
next
  case (Cons a script)
  show ?case
  proof (cases "crashes a")
    case True
    with Cons.prems show ?thesis
      by (cases "(dist, a, (p, w))" rule: stream_step.cases) auto
  next
    case False
    obtain p' w' where s: "stream_step dist a (p, w) = (p', w')"
      by (cases "stream_step dist a (p, w)")
    with Cons.prems False have "fst (run_streams dist script (p', w')) = Rejected e"
      by simp
    from Cons.IH [OF this]
    have "p' = Rejected e \<or> Emit WriteStream (ErrorEvent e) \<in> set script" .
    moreover have "p' = Rejected e \<Longrightarrow> p = Rejected e \<or> a = Emit WriteStream (ErrorEvent e)"
      using s
      by (cases "(dist, a, (p, w))" rule: stream_step.cases)
        (auto simp: resolve_def reject_def split: if_splits)
    ultimately show ?thesis by auto
  qed
qed

text \<open>
  The promise of \<^verbatim>\<open>browserifyFile\<close> is fulfilled only after the write stream has
  finished, and an error that no listener takes is never the reason of a rejection
  unless the write stream emitted it too.
\<close>

lemma browserifyFile_fulfilled_after_finish:
  assumes "fst (browserifyFile env entryPath distPath w) = Fulfilled"
  shows "Emit WriteStream Finish \<in> set (stream_script env)"
  using assms run_streams_fulfilled
  unfolding browserifyFile_def Let_def
  by (fastforce split: sum.splits option.splits)

lemma browserifyFile_rejected:
  assumes "fst (browserifyFile env entryPath distPath w) = Rejected e"
  shows "configure env entryPath = Inl e
         \<or> (distPath = None \<and> e = InvalidArgType)
         \<or> (\<exists>dist. distPath = Some dist \<and> mkdir_error env (dirname dist) = Some e)
         \<or> Emit WriteStream (ErrorEvent e) \<in> set (stream_script env)"
  using assms run_streams_rejected
  unfolding browserifyFile_def Let_def
  by (fastforce split: sum.splits option.splits)

text \<open>
  Claim C1 says that the promise of \<^verbatim>\<open>browserifyFile\<close> is rejected on an error of the
  bundler stream as it is on an error of the write stream. The code registers
  \<^verbatim>\<open>reject\<close> on the write stream only. Here the bundler stream emits an error: the
  promise stays pending, and the error ends the run as an uncaught exception.
\<close>

theorem bundler_error_not_rejected:
  "fst (browserifyFile bundler_error_env (Some ''/lh/lighthouse-cli/index.js'')
          (Some ''/lh/dist/out.js'') example_world) = Pending
   \<and> last (trace (snd (browserifyFile bundler_error_env (Some ''/lh/lighthouse-cli/index.js'')
          (Some ''/lh/dist/out.js'') example_world)))
       = UncaughtException (IOError ''Unexpected token'')"
  by code_simp

section \<open>Facts about build and cli\<close>

text \<open>A complete run on the small installation: the bundle is written, then minified.\<close>

lemma example_build:
  "fst (build example_env (Some ''/lh/lighthouse-cli/index.js'') (Some ''/lh/dist/out.js'')
          example_world) = Fulfilled
   \<and> files (snd (build example_env (Some ''/lh/lighthouse-cli/index.js'')
          (Some ''/lh/dist/out.js'') example_world)) ''/lh/dist/out.js'' = Some ''var answer=42;''
   \<and> files (snd (build example_env (Some ''/lh/lighthouse-cli/index.js'')
          (Some ''/lh/dist/out.js'') example_world)) ''/lh/dist/out.js.map'' = Some ''{}''"
  by code_simp


lemma element_map_drop:
  "element (map f (drop n xs)) i = map_option f (element xs (n + i))"
  by (auto simp: element_def)

lemma resolve_from_absolute:
  assumes "isAbsolute dir"
  shows "snd (foldl resolve_step ([], False) [filePath, dir, dir])"
  using assms by (auto simp: resolve_step_def isAbsolute_def)

lemma path_resolve_absolute:
  assumes "isAbsolute dir"
  shows "isAbsolute (path_resolve dir filePath)"
  using resolve_from_absolute [OF assms, of filePath]
  by (simp add: path_resolve_def Let_def isAbsolute_def)

lemma cli_calls_build:
  "cli env (a0 # a1 # entry # dist # rest) w =
     (case build env (Some (path_resolve (cwd env) entry)) (Some (path_resolve (cwd env) dist)) w of
        (Pending, w1) \<Rightarrow> (Fulfilled, w1)
      | (Fulfilled, w1) \<Rightarrow> (Fulfilled, w1)
      | (Rejected e, w1) \<Rightarrow> (Fulfilled, log_event (UnhandledRejection e) w1))"
  by (simp add: cli_def element_def Let_def split: prod.splits promise.splits)

lemma cli_one_argument:
  "cli env [a0, a1, entry] w =
     (case build env (Some (path_resolve (cwd env) entry)) None w of
        (Pending, w1) \<Rightarrow> (Fulfilled, w1)
      | (Fulfilled, w1) \<Rightarrow> (Fulfilled, w1)
      | (Rejected e, w1) \<Rightarrow> (Fulfilled, log_event (UnhandledRejection e) w1))"
  by (simp add: cli_def element_def Let_def split: prod.splits promise.splits)

lemma cli_no_argument:
  "length argv \<le> 2 \<Longrightarrow>
   cli env argv w =
     (case build env None None w of
        (Pending, w1) \<Rightarrow> (Fulfilled, w1)
      | (Fulfilled, w1) \<Rightarrow> (Fulfilled, w1)
      | (Rejected e, w1) \<Rightarrow> (Fulfilled, log_event (UnhandledRejection e) w1))"
  by (simp add: cli_def element_def Let_def split: prod.splits promise.splits)

text \<open>What \<^verbatim>\<open>path.resolve\<close> returns for an absolute working directory.\<close>

lemma path_resolve_relative:
  assumes "isAbsolute dir" and "filePath \<noteq> []" and "\<not> isAbsolute filePath"
  shows "path_resolve dir filePath =
           CHR ''/'' # normalizeString (dir @ ''/'' @ filePath @ ''/'') False"
  using assms by (simp add: path_resolve_def resolve_step_def isAbsolute_def Let_def)

lemma path_resolve_of_absolute:
  assumes "isAbsolute filePath"
  shows "path_resolve dir filePath = CHR ''/'' # normalizeString (filePath @ ''/'') False"
  using assms by (simp add: path_resolve_def resolve_step_def isAbsolute_def Let_def)

text \<open>
  Claim C9 says that a failure of the build surfaces as an unhandled rejection. \<^verbatim>\<open>cli\<close>
  does call \<^verbatim>\<open>build\<close> with its third and fourth argument, each resolved against the
  working directory, and drops the promise, so that a rejection of the build is left
  unhandled. But when the bundler stream fails, the promise of the build is never
  rejected (claim C1): the run ends with an uncaught exception, and there is no
  unhandled rejection.
\<close>

theorem cli_bundler_error_uncaught:
  "fst (build bundler_error_env (Some ''/lh/lighthouse-cli/index.js'') (Some ''/lh/dist/out.js'')
          example_world) = Pending
   \<and> fst (cli bundler_error_env
          [''node'', ''build/build-bundle.js'', ''lighthouse-cli/index.js'', ''dist/out.js'']
          example_world) = Fulfilled
   \<and> trace (snd (cli bundler_error_env
          [''node'', ''build/build-bundle.js'', ''lighthouse-cli/index.js'', ''dist/out.js'']
          example_world))
       = [Bundle example_plain_session, Mkdir ''/lh/dist'', CreateWriteStream ''/lh/dist/out.js'',
          Exorcist ''/lh/dist/out.js.map'', UncaughtException (IOError ''Unexpected token'')]"
  by code_simp

text \<open>A build that is rejected: the rejection is left unhandled.\<close>

lemma example_cli_unhandled_rejection:
  "trace (snd (cli no_package_env
          [''node'', ''build/build-bundle.js'', ''lighthouse-cli/index.js'', ''dist/out.js'']
          example_world))
       = [UnhandledRejection (ModuleNotFound ''../package.json'')]"
  by code_simp

text \<open>A build that succeeds, started from the command line.\<close>

lemma example_cli_build:
  "trace (snd (cli example_env
          [''node'', ''build/build-bundle.js'', ''lighthouse-cli/index.js'', ''dist/out.js'']
          example_world))
       = [Bundle example_plain_session, Mkdir ''/lh/dist'', CreateWriteStream ''/lh/dist/out.js'',
          Exorcist ''/lh/dist/out.js.map'', OpenFile ''/lh/dist/out.js'',
          WriteFile ''/lh/dist/out.js.map'' ''{}'', WriteChunk ''/lh/dist/out.js'' ''var answer = 42;'',
          ReadFile ''/lh/dist/out.js'', ReadFile ''/lh/dist/out.js.map'',
          TerserMinify ''var answer = 42;'' (terser_options (JObj []) ''/lh/dist/out.js''),
          WriteFile ''/lh/dist/out.js'' ''var answer=42;'', WriteFile ''/lh/dist/out.js.map'' ''{}'']"
  by code_simp

end
